theory Spec2Isabelle
  imports Complex_Main "HOL-Library.Sublist"
begin

section \<open>Job application assistant: data model\<close>

text \<open>
  The program is one Python module, \<^verbatim>\<open>project1_job_application_assistant.py\<close>.
  It declares two schema classes and three components, each of which runs the chain
  \<^verbatim>\<open>self.prompt | self.llm | self.output_parser\<close>, and a driver \<^verbatim>\<open>main\<close>.

  A raised exception is a value of \<open>error\<close>. The specification names two kinds; a third,
  \<open>KeyError\<close>, is what filling a template raises when a placeholder has no value.
\<close>

datatype error = GenerationError | ParseValidationError | KeyError string

text \<open>
  \<^verbatim>\<open>class JobDetails(BaseModel)\<close>, lines 24-30:
  \<^verbatim>\<open>job_title: str\<close>, \<^verbatim>\<open>required_skills: List[str]\<close>, \<^verbatim>\<open>experience_required: int\<close>,
  \<^verbatim>\<open>tools: List[str]\<close>, \<^verbatim>\<open>soft_skills: List[str]\<close>, each declared \<^verbatim>\<open>Field(...)\<close>,
  that is, required and without any further constraint.
\<close>

record JobDetails =
  job_title :: string
  required_skills :: "string list"
  experience_required :: int
  tools :: "string list"
  soft_skills :: "string list"

text \<open>\<^verbatim>\<open>class ResumeSuggestions(BaseModel)\<close>, lines 33-37.\<close>

record ResumeSuggestions =
  missing_skills :: "string list"
  improvement_points :: "string list"
  overall_fit_summary :: string

section \<open>Decoded JSON and schema validation\<close>

text \<open>
  The value a JSON text decodes to. An object keeps its members in the order of the text.
  A number written without fraction and exponent decodes to an integer, any other number
  to a floating-point value; the floating-point values are the type parameter \<open>'f\<close>.
\<close>

datatype 'f json =
    JNull
  | JBool bool
  | JInt int
  | JFloat 'f
  | JString string
  | JArray "'f json list"
  | JObject "(string \<times> 'f json) list"

text \<open>Decoding builds a dictionary: of two members with the same name the later one stays.\<close>

definition obj_get :: "(string \<times> 'f json) list \<Rightarrow> string \<Rightarrow> 'f json option" where
  "obj_get kvs k = map_of (rev kvs) k"

text \<open>
  The source declares the fields with the plain types \<^verbatim>\<open>str\<close>, \<^verbatim>\<open>int\<close> and
  \<^verbatim>\<open>List[str]\<close> and sets no strict flag, so the schema library validates them in its
  default mode (version 2 of the library): a \<^verbatim>\<open>str\<close> field takes a string only, a
  \<^verbatim>\<open>List[str]\<close> field a list of strings only, and an \<^verbatim>\<open>int\<close> field takes an integer
  of either sign, a boolean (as 0 or 1), and a string or a floating-point value that the
  library converts to an integer.

  The two conversions are code of the schema library, which is not part of the program;
  they are parameters of the validation: \<open>str_as_int lax s\<close> and \<open>float_as_int lax f\<close> are
  the integer the library reads the string \<open>s\<close> or the floating-point value \<open>f\<close> as, and
  \<open>None\<close> where it refuses. (The library reads the string \<^verbatim>\<open>"5"\<close> as 5.)
\<close>

record 'f lax_mode =
  str_as_int :: "string \<Rightarrow> int option"
  float_as_int :: "'f \<Rightarrow> int option"

fun validate_str :: "'f json \<Rightarrow> string option" where
  "validate_str (JString s) = Some s"
| "validate_str _ = None"

fun validate_int :: "'f lax_mode \<Rightarrow> 'f json \<Rightarrow> int option" where
  "validate_int lax (JInt n) = Some n"
| "validate_int lax (JBool b) = Some (if b then 1 else 0)"
| "validate_int lax (JFloat f) = float_as_int lax f"
| "validate_int lax (JString s) = str_as_int lax s"
| "validate_int lax _ = None"

fun validate_strs :: "'f json list \<Rightarrow> string list option" where
  "validate_strs [] = Some []"
| "validate_strs (x # xs) =
     (case validate_str x of
        None \<Rightarrow> None
      | Some s \<Rightarrow> (case validate_strs xs of None \<Rightarrow> None | Some ss \<Rightarrow> Some (s # ss)))"

fun validate_str_list :: "'f json \<Rightarrow> string list option" where
  "validate_str_list (JArray xs) = validate_strs xs"
| "validate_str_list _ = None"

text \<open>A field declared \<^verbatim>\<open>Field(...)\<close> is required: an absent member is an error.\<close>

definition required ::
  "(string \<times> 'f json) list \<Rightarrow> string \<Rightarrow> ('f json \<Rightarrow> 'a option) \<Rightarrow> 'a option" where
  "required kvs k v = (case obj_get kvs k of None \<Rightarrow> None | Some x \<Rightarrow> v x)"

definition JobDetails_fields :: "string list" where
  "JobDetails_fields =
     [''job_title'', ''required_skills'', ''experience_required'', ''tools'', ''soft_skills'']"

fun JobDetails_validate :: "'f lax_mode \<Rightarrow> 'f json \<Rightarrow> JobDetails option" where
  "JobDetails_validate lax (JObject kvs) =
     (case required kvs ''job_title'' validate_str of None \<Rightarrow> None | Some t \<Rightarrow>
      case required kvs ''required_skills'' validate_str_list of None \<Rightarrow> None | Some rs \<Rightarrow>
      case required kvs ''experience_required'' (validate_int lax) of None \<Rightarrow> None | Some n \<Rightarrow>
      case required kvs ''tools'' validate_str_list of None \<Rightarrow> None | Some ts \<Rightarrow>
      case required kvs ''soft_skills'' validate_str_list of None \<Rightarrow> None | Some ss \<Rightarrow>
        Some \<lparr>job_title = t, required_skills = rs, experience_required = n,
              tools = ts, soft_skills = ss\<rparr>)"
| "JobDetails_validate lax _ = None"

fun ResumeSuggestions_validate :: "'f json \<Rightarrow> ResumeSuggestions option" where
  "ResumeSuggestions_validate (JObject kvs) =
     (case required kvs ''missing_skills'' validate_str_list of None \<Rightarrow> None | Some ms \<Rightarrow>
      case required kvs ''improvement_points'' validate_str_list of None \<Rightarrow> None | Some ps \<Rightarrow>
      case required kvs ''overall_fit_summary'' validate_str of None \<Rightarrow> None | Some f \<Rightarrow>
        Some \<lparr>missing_skills = ms, improvement_points = ps, overall_fit_summary = f\<rparr>)"
| "ResumeSuggestions_validate _ = None"

text \<open>
  \<^verbatim>\<open>PydanticOutputParser(pydantic_object=...)\<close>: the response text is decoded, then
  validated against the schema; either step failing is one and the same parse error.
  The decoder belongs to the parsing library and is a parameter: \<open>decode text = None\<close>
  when the text is not well-formed JSON.
\<close>

definition PydanticOutputParser ::
  "(string \<Rightarrow> 'f json option) \<Rightarrow> ('f json \<Rightarrow> 'a option) \<Rightarrow> string \<Rightarrow> error + 'a" where
  "PydanticOutputParser decode validate text =
     (case decode text of
        None \<Rightarrow> Inl ParseValidationError
      | Some j \<Rightarrow> (case validate j of None \<Rightarrow> Inl ParseValidationError | Some r \<Rightarrow> Inr r))"

text \<open>\<^verbatim>\<open>StrOutputParser()\<close> hands the text on as it is.\<close>

definition StrOutputParser :: "string \<Rightarrow> error + string" where
  "StrOutputParser text = Inr text"

section \<open>Prompt templates\<close>

text \<open>
  A template is the text of the source with its \<^verbatim>\<open>{name}\<close> placeholders marked.
  \<^verbatim>\<open>PromptTemplate(input_variables=..., template=..., partial_variables=...)\<close> keeps the
  three arguments; filling the template reads the placeholders of the text itself, so the
  declared \<open>input_variables\<close> take no part in it.
\<close>

datatype piece = Lit string | Var string

record PromptTemplate =
  input_variables :: "string list"
  template :: "piece list"
  partial_variables :: "(string \<times> string) list"

fun format_pieces :: "piece list \<Rightarrow> (string \<rightharpoonup> string) \<Rightarrow> error + string" where
  "format_pieces [] kw = Inr []"
| "format_pieces (Lit s # ps) kw =
     (case format_pieces ps kw of Inl e \<Rightarrow> Inl e | Inr r \<Rightarrow> Inr (s @ r))"
| "format_pieces (Var v # ps) kw =
     (case kw v of
        None \<Rightarrow> Inl (KeyError v)
      | Some x \<Rightarrow> (case format_pieces ps kw of Inl e \<Rightarrow> Inl e | Inr r \<Rightarrow> Inr (x @ r)))"

text \<open>The values given at the call override the partial variables of the same name.\<close>

definition PromptTemplate_format :: "PromptTemplate \<Rightarrow> (string \<times> string) list \<Rightarrow> error + string" where
  "PromptTemplate_format pt kwargs =
     format_pieces (template pt) (map_of (partial_variables pt) ++ map_of kwargs)"

text \<open>\<^verbatim>\<open>str(n)\<close> for an integer and \<^verbatim>\<open>sep.join(xs)\<close> for a list of strings.\<close>

fun str_of_nat :: "nat \<Rightarrow> string" where
  "str_of_nat n =
     (if n < 10 then [char_of (48 + n)]
      else str_of_nat (n div 10) @ [char_of (48 + n mod 10)])"

definition str_of_int :: "int \<Rightarrow> string" where
  "str_of_int i = (if i < 0 then CHR ''-'' # str_of_nat (nat (- i)) else str_of_nat (nat i))"

fun join :: "string \<Rightarrow> string list \<Rightarrow> string" where
  "join sep [] = []"
| "join sep [x] = x"
| "join sep (x # y # ys) = x @ sep @ join sep (y # ys)"

section \<open>The generation service and the chain\<close>

text \<open>
  \<^verbatim>\<open>Ollama(model=model_name, temperature=t)\<close> is the configuration a request is sent with.
  The service itself is outside the program: given the configuration and the prompt it
  returns a text, or fails (\<open>None\<close>), which the caller sees as a \<open>GenerationError\<close>.
  The world records what the program does to its surroundings: the requests sent to the
  service and the lines printed, both in order.
\<close>

record Ollama =
  model :: string
  temperature :: rat

type_synonym service = "Ollama \<Rightarrow> string \<Rightarrow> string option"

record world =
  calls :: "(Ollama \<times> string) list"
  stdout :: "string list"

text \<open>The three classes hold the same three attributes, set in \<^verbatim>\<open>__init__\<close>.\<close>

record 'a component =
  llm :: Ollama
  output_parser :: "string \<Rightarrow> error + 'a"
  prompt :: PromptTemplate

text \<open>
  \<^verbatim>\<open>chain = self.prompt | self.llm | self.output_parser\<close> and \<^verbatim>\<open>chain.invoke({...})\<close>:
  fill the template, send the prompt, parse the reply. Nothing is caught on the way.
\<close>

definition chain_invoke ::
  "service \<Rightarrow> 'a component \<Rightarrow> (string \<times> string) list \<Rightarrow> world \<Rightarrow> (error + 'a) \<times> world" where
  "chain_invoke svc self kwargs w =
     (case PromptTemplate_format (prompt self) kwargs of
        Inl e \<Rightarrow> (Inl e, w)
      | Inr p \<Rightarrow>
          (let w' = w\<lparr>calls := calls w @ [(llm self, p)]\<rparr>
           in case svc (llm self) p of
                None \<Rightarrow> (Inl GenerationError, w')
              | Some text \<Rightarrow> (output_parser self text, w')))"

section \<open>Feature 1: job description analyzer\<close>

text \<open>
  \<^verbatim>\<open>get_format_instructions()\<close> is a text of the parsing library that describes the
  schema; it is a parameter (\<open>fi\<close>) of the constructor here.
\<close>

definition JobDescriptionAnalyzer_setup_prompt :: "string \<Rightarrow> PromptTemplate" where
  "JobDescriptionAnalyzer_setup_prompt format_instructions =
     \<lparr>input_variables = [''job_description''],
      template =
        [Lit ''Analyze the following job description and extract structured information.\<newline>\<newline>'',
         Lit ''Job Description:\<newline>'',
         Var ''job_description'',
         Lit ''\<newline>\<newline>'',
         Var ''format_instructions'',
         Lit ''\<newline>\<newline>'',
         Lit ''Provide the extracted information in the specified JSON format.''],
      partial_variables = [(''format_instructions'', format_instructions)]\<rparr>"

definition JobDescriptionAnalyzer_init ::
  "(string \<Rightarrow> 'f json option) \<Rightarrow> 'f lax_mode \<Rightarrow> string \<Rightarrow> string
     \<Rightarrow> JobDetails component" where
  "JobDescriptionAnalyzer_init decode lax fi model_name =
     \<lparr>llm = \<lparr>model = model_name, temperature = 3 / 10\<rparr>,
      output_parser = PydanticOutputParser decode (JobDetails_validate lax),
      prompt = JobDescriptionAnalyzer_setup_prompt fi\<rparr>"

definition analyze ::
  "service \<Rightarrow> JobDetails component \<Rightarrow> string \<Rightarrow> world \<Rightarrow> (error + JobDetails) \<times> world" where
  "analyze svc self job_description w =
     chain_invoke svc self [(''job_description'', job_description)] w"

section \<open>Feature 2: resume improvement suggestions\<close>

definition ResumeSuggestionGenerator_setup_prompt :: "string \<Rightarrow> PromptTemplate" where
  "ResumeSuggestionGenerator_setup_prompt format_instructions =
     \<lparr>input_variables = [''job_details'', ''current_resume''],
      template =
        [Lit ''Based on the job requirements and current resume, generate improvement suggestions.\<newline>\<newline>'',
         Lit ''Job Requirements:\<newline>'',
         Lit ''- Title: '',
         Var ''job_details'',
         Lit ''\<newline>'',
         Lit ''- Skills needed: '',
         Var ''required_skills'',
         Lit ''\<newline>'',
         Lit ''- Experience: '',
         Var ''experience_required'',
         Lit '' years\<newline>'',
         Lit ''- Tools: '',
         Var ''tools'',
         Lit ''\<newline>\<newline>'',
         Lit ''Current Resume:\<newline>'',
         Var ''current_resume'',
         Lit ''\<newline>\<newline>'',
         Var ''format_instructions'',
         Lit ''\<newline>\<newline>'',
         Lit ''Provide structured suggestions to improve the resume for this job position.''],
      partial_variables = [(''format_instructions'', format_instructions)]\<rparr>"

definition ResumeSuggestionGenerator_init ::
  "(string \<Rightarrow> 'f json option) \<Rightarrow> string \<Rightarrow> string \<Rightarrow> ResumeSuggestions component" where
  "ResumeSuggestionGenerator_init decode fi model_name =
     \<lparr>llm = \<lparr>model = model_name, temperature = 5 / 10\<rparr>,
      output_parser = PydanticOutputParser decode ResumeSuggestions_validate,
      prompt = ResumeSuggestionGenerator_setup_prompt fi\<rparr>"

text \<open>The dictionary passed to \<^verbatim>\<open>chain.invoke\<close>, lines 137-143.\<close>

definition generate_suggestions_inputs :: "JobDetails \<Rightarrow> string \<Rightarrow> (string \<times> string) list" where
  "generate_suggestions_inputs job_details current_resume =
     [(''job_details'', job_title job_details),
      (''required_skills'', join '', '' (required_skills job_details)),
      (''experience_required'', str_of_int (experience_required job_details)),
      (''tools'', join '', '' (tools job_details)),
      (''current_resume'', current_resume)]"

definition generate_suggestions ::
  "service \<Rightarrow> ResumeSuggestions component \<Rightarrow> JobDetails \<Rightarrow> string \<Rightarrow> world
     \<Rightarrow> (error + ResumeSuggestions) \<times> world" where
  "generate_suggestions svc self job_details current_resume w =
     chain_invoke svc self (generate_suggestions_inputs job_details current_resume) w"

section \<open>Feature 3: cover letter generator\<close>

definition CoverLetterGenerator_setup_prompt :: PromptTemplate where
  "CoverLetterGenerator_setup_prompt =
     \<lparr>input_variables =
        [''candidate_name'', ''job_title'', ''company_name'', ''key_achievements'',
         ''job_requirements''],
      template =
        [Lit ''Write a professional cover letter for the following position:\<newline>\<newline>'',
         Lit ''Candidate Name: '',
         Var ''candidate_name'',
         Lit ''\<newline>'',
         Lit ''Job Title: '',
         Var ''job_title'',
         Lit ''\<newline>'',
         Lit ''Company: '',
         Var ''company_name'',
         Lit ''\<newline>\<newline>'',
         Lit ''Key Achievements:\<newline>'',
         Var ''key_achievements'',
         Lit ''\<newline>\<newline>'',
         Lit ''Job Requirements:\<newline>'',
         Var ''job_requirements'',
         Lit ''\<newline>\<newline>'',
         Lit ''Instructions:\<newline>'',
         Lit ''- Write a compelling cover letter (300-400 words)\<newline>'',
         Lit ''- Highlight relevant experience\<newline>'',
         Lit ''- Match key requirements from job description\<newline>'',
         Lit ''- Use professional tone\<newline>'',
         Lit ''- Include specific examples from achievements\<newline>'',
         Lit ''- Output only the cover letter text, no JSON or formatting markers\<newline>\<newline>'',
         Lit ''Cover Letter:''],
      partial_variables = []\<rparr>"

definition CoverLetterGenerator_init :: "string \<Rightarrow> string component" where
  "CoverLetterGenerator_init model_name =
     \<lparr>llm = \<lparr>model = model_name, temperature = 7 / 10\<rparr>,
      output_parser = StrOutputParser,
      prompt = CoverLetterGenerator_setup_prompt\<rparr>"

definition generate_inputs ::
  "string \<Rightarrow> string \<Rightarrow> string \<Rightarrow> string \<Rightarrow> string \<Rightarrow> (string \<times> string) list" where
  "generate_inputs candidate_name job_title' company_name key_achievements job_requirements =
     [(''candidate_name'', candidate_name),
      (''job_title'', job_title'),
      (''company_name'', company_name),
      (''key_achievements'', key_achievements),
      (''job_requirements'', job_requirements)]"

definition generate ::
  "service \<Rightarrow> string component \<Rightarrow> string \<Rightarrow> string \<Rightarrow> string \<Rightarrow> string \<Rightarrow> string \<Rightarrow> world
     \<Rightarrow> (error + string) \<times> world" where
  "generate svc self candidate_name job_title' company_name key_achievements job_requirements w =
     chain_invoke svc self
       (generate_inputs candidate_name job_title' company_name key_achievements job_requirements) w"

section \<open>The driver\<close>

text \<open>
  \<^verbatim>\<open>print(x)\<close> adds one entry to the console output. The three marks of the source that
  are not ASCII are written as their UTF-8 bytes.
\<close>

definition print :: "string \<Rightarrow> world \<Rightarrow> world" where
  "print s w = w\<lparr>stdout := stdout w @ [s]\<rparr>"

fun prints :: "string list \<Rightarrow> world \<Rightarrow> world" where
  "prints [] w = w"
| "prints (s # ss) w = prints ss (print s w)"

definition check_mark :: string where
  "check_mark = [CHR 0xE2, CHR 0x9C, CHR 0x85]"

definition cross_mark :: string where
  "cross_mark = [CHR 0xE2, CHR 0x9D, CHR 0x8C]"

definition bullet :: string where
  "bullet = [CHR 0xE2, CHR 0x80, CHR 0xA2]"

definition job_description :: string where
  "job_description =
     ''\<newline>'' @
     ''    Senior Python Developer\<newline>'' @
     ''    \<newline>'' @
     ''    We are looking for a Senior Python Developer with 5+ years of experience.\<newline>'' @
     ''    \<newline>'' @
     ''    Required Skills:\<newline>'' @
     ''    - Python (Django, FastAPI, Flask)\<newline>'' @
     ''    - PostgreSQL and Redis\<newline>'' @
     ''    - Docker and Kubernetes\<newline>'' @
     ''    - AWS (EC2, S3, Lambda)\<newline>'' @
     ''    - RESTful API design\<newline>'' @
     ''    \<newline>'' @
     ''    Responsibilities:\<newline>'' @
     ''    - Design and develop scalable web applications\<newline>'' @
     ''    - Lead code reviews and mentor junior developers\<newline>'' @
     ''    - Optimize database performance\<newline>'' @
     ''    - Collaborate with DevOps team\<newline>'' @
     ''    \<newline>'' @
     ''    Soft Skills:\<newline>'' @
     ''    - Strong communication\<newline>'' @
     ''    - Team player\<newline>'' @
     ''    - Problem-solving\<newline>'' @
     ''    - Leadership experience\<newline>'' @
     ''    ''"

definition sample_resume :: string where
  "sample_resume =
     ''\<newline>'' @
     ''    JOHN DOE\<newline>'' @
     ''    john.doe@email.com | linkedin.com/in/johndoe\<newline>'' @
     ''    \<newline>'' @
     ''    EXPERIENCE:\<newline>'' @
     ''    Python Developer at Tech Corp (3 years)\<newline>'' @
     ''    - Developed REST APIs using Flask\<newline>'' @
     ''    - Worked with MySQL databases\<newline>'' @
     ''    - Basic Docker experience\<newline>'' @
     ''    \<newline>'' @
     ''    Junior Developer at Startup (2 years)\<newline>'' @
     ''    - Built web applications\<newline>'' @
     ''    - Fixed bugs and optimized code\<newline>'' @
     ''    \<newline>'' @
     ''    SKILLS:\<newline>'' @
     ''    - Python, JavaScript\<newline>'' @
     ''    - Flask, Django\<newline>'' @
     ''    - MySQL\<newline>'' @
     ''    - Git\<newline>'' @
     ''    ''"

definition key_achievements :: string where
  "key_achievements =
     ''\<newline>'' @
     ''            - Led development of 3 REST APIs serving 100K+ users\<newline>'' @
     ''            - Optimized database queries reducing response time by 40%\<newline>'' @
     ''            - Mentored 2 junior developers\<newline>'' @
     ''            - Implemented CI/CD pipelines using Docker\<newline>'' @
     ''            ''"

text \<open>The last three \<^verbatim>\<open>print\<close> calls of \<^verbatim>\<open>main\<close>, lines 357-359.\<close>

definition success_banner :: "string list" where
  "success_banner =
     [''\<newline>'' @ replicate 80 CHR ''='',
      check_mark @ '' PROJECT 1 COMPLETED SUCCESSFULLY!'',
      replicate 80 CHR ''='' @ ''\<newline>'']"

text \<open>
  \<^verbatim>\<open>main\<close>, lines 229-359. Each feature runs inside \<^verbatim>\<open>try\<close>; the handler
  \<^verbatim>\<open>except Exception as e\<close> prints one line and returns. \<open>str_of_exc\<close> is the text
  \<^verbatim>\<open>{e}\<close> is replaced by.
\<close>

definition main ::
  "service \<Rightarrow> (string \<Rightarrow> 'f json option) \<Rightarrow> 'f lax_mode \<Rightarrow> string \<Rightarrow> string
     \<Rightarrow> (error \<Rightarrow> string) \<Rightarrow> world \<Rightarrow> world" where
  "main svc decode lax fi_job fi_resume str_of_exc w0 =
     (let w1 = prints
            [''\<newline>'' @ replicate 80 CHR ''='',
             ''PROJECT 1: AI JOB APPLICATION ASSISTANT'',
             replicate 80 CHR ''='',
             ''\<newline>'' @ replicate 80 CHR ''-'',
             ''FEATURE 1: JOB DESCRIPTION ANALYZER'',
             replicate 80 CHR ''-''] w0;
          analyzer = JobDescriptionAnalyzer_init decode lax fi_job ''mistral''
      in case analyze svc analyzer job_description w1 of
           (Inl e, w2) \<Rightarrow>
             print (cross_mark @ '' Error in Job Description Analyzer: '' @ str_of_exc e) w2
         | (Inr job_details, w2) \<Rightarrow>
             (let w3 = prints
                    [''\<newline>'' @ check_mark @ '' Extracted Job Details:'',
                     ''   Job Title: '' @ job_title job_details,
                     ''   Experience Required: '' @ str_of_int (experience_required job_details)
                       @ '' years'',
                     ''   Required Skills: '' @ join '', '' (required_skills job_details),
                     ''   Tools: '' @ join '', '' (tools job_details),
                     ''   Soft Skills: '' @ join '', '' (soft_skills job_details),
                     ''\<newline>'' @ replicate 80 CHR ''-'',
                     ''FEATURE 2: RESUME IMPROVEMENT SUGGESTIONS'',
                     replicate 80 CHR ''-''] w2;
                  suggestion_gen = ResumeSuggestionGenerator_init decode fi_resume ''mistral''
              in case generate_suggestions svc suggestion_gen job_details sample_resume w3 of
                   (Inl e, w4) \<Rightarrow>
                     print (cross_mark @ '' Error in Resume Suggestion Generator: '' @ str_of_exc e) w4
                 | (Inr suggestions, w4) \<Rightarrow>
                     (let w5 = prints
                            ([''\<newline>'' @ check_mark @ '' Resume Improvement Suggestions:'',
                              ''\<newline>   Missing Skills to Add:'']
                             @ map (\<lambda>skill. ''      '' @ bullet @ '' '' @ skill)
                                 (missing_skills suggestions)
                             @ [''\<newline>   Improvement Points:'']
                             @ map (\<lambda>point. ''      '' @ bullet @ '' '' @ point)
                                 (improvement_points suggestions)
                             @ [''\<newline>   Overall Fit Summary: '' @ overall_fit_summary suggestions,
                                ''\<newline>'' @ replicate 80 CHR ''-'',
                                ''FEATURE 3: COVER LETTER GENERATOR'',
                                replicate 80 CHR ''-'']) w4;
                          cover_letter_gen = CoverLetterGenerator_init ''mistral''
                      in case generate svc cover_letter_gen ''John Doe'' ''Senior Python Developer''
                                ''Tech Corp'' key_achievements
                                ''Python, Django, FastAPI, PostgreSQL, Redis, Docker, AWS'' w5 of
                           (Inl e, w6) \<Rightarrow>
                             print (cross_mark @ '' Error in Cover Letter Generator: '' @ str_of_exc e) w6
                         | (Inr cover_letter, w6) \<Rightarrow>
                             prints
                               ([''\<newline>'' @ check_mark @ '' Generated Cover Letter:'',
                                 ''\<newline>'' @ replicate 80 CHR ''-'',
                                 cover_letter,
                                 replicate 80 CHR ''-'']
                                @ success_banner) w6)))"

section \<open>Facts about templates and the chain\<close>

text \<open>A template whose placeholders all have a value is filled without error.\<close>

lemma format_pieces_total:
  "list_all (\<lambda>p. case p of Lit s \<Rightarrow> True | Var v \<Rightarrow> kw v \<noteq> None) ps
     \<Longrightarrow> \<exists>r. format_pieces ps kw = Inr r"
proof (induction ps)
  case Nil
  show ?case by simp
next
  case (Cons a ps)
  then obtain r where "format_pieces ps kw = Inr r" by auto
  with Cons.prems show ?case by (cases a) auto
qed

text \<open>The value of a placeholder of the template stands in the filled text.\<close>

lemma format_pieces_value:
  "format_pieces ps kw = Inr r \<Longrightarrow> Var v \<in> set ps \<Longrightarrow> kw v = Some x \<Longrightarrow> sublist x r"
proof (induction ps arbitrary: r)
  case Nil
  then show ?case by simp
next
  case (Cons a ps)
  show ?case
  proof (cases a)
    case (Lit s)
    with Cons.prems obtain r' where r': "format_pieces ps kw = Inr r'" "r = s @ r'"
      by (auto split: sum.splits)
    from Lit Cons.prems have "Var v \<in> set ps" by auto
    with Cons.IH r' Cons.prems have "sublist x r'" by blast
    with r' show ?thesis by (simp add: sublist_append)
  next
    case (Var u)
    with Cons.prems obtain y r'
      where r': "kw u = Some y" "format_pieces ps kw = Inr r'" "r = y @ r'"
      by (auto split: sum.splits option.splits)
    show ?thesis
    proof (cases "u = v")
      case True
      with r' Cons.prems have "y = x" by simp
      with r' show ?thesis by (simp add: sublist_append)
    next
      case False
      with Var Cons.prems have "Var v \<in> set ps" by auto
      with Cons.IH r' Cons.prems have "sublist x r'" by blast
      with r' show ?thesis by (simp add: sublist_append)
    qed
  qed
qed

lemma PromptTemplate_format_value:
  assumes "PromptTemplate_format pt kwargs = Inr p"
    and "Var v \<in> set (template pt)"
    and "map_of kwargs v = Some x"
  shows "sublist x p"
proof -
  have "(map_of (partial_variables pt) ++ map_of kwargs) v = Some x"
    using assms(3) by (simp add: map_add_def)
  with assms(1,2) show ?thesis
    unfolding PromptTemplate_format_def by (rule format_pieces_value)
qed

text \<open>Each component supplies every placeholder of its template.\<close>

lemma analyze_prompt_ok:
  "\<exists>p. PromptTemplate_format (prompt (JobDescriptionAnalyzer_init decode lax fi m))
          [(''job_description'', jd)] = Inr p"
  unfolding PromptTemplate_format_def
  by (rule format_pieces_total)
     (simp add: JobDescriptionAnalyzer_init_def JobDescriptionAnalyzer_setup_prompt_def)

lemma suggestions_prompt_ok:
  "\<exists>p. PromptTemplate_format (prompt (ResumeSuggestionGenerator_init decode fi m))
          (generate_suggestions_inputs jd resume) = Inr p"
  unfolding PromptTemplate_format_def
  by (rule format_pieces_total)
     (simp add: ResumeSuggestionGenerator_init_def ResumeSuggestionGenerator_setup_prompt_def
        generate_suggestions_inputs_def)

lemma generate_prompt_ok:
  "\<exists>p. PromptTemplate_format (prompt (CoverLetterGenerator_init m))
          (generate_inputs a b c d e) = Inr p"
  unfolding PromptTemplate_format_def
  by (rule format_pieces_total)
     (simp add: CoverLetterGenerator_init_def CoverLetterGenerator_setup_prompt_def
        generate_inputs_def)

lemma suggestions_template_vars:
  "Var ''job_details'' \<in> set (template (prompt (ResumeSuggestionGenerator_init decode fi m)))"
  "Var ''required_skills'' \<in> set (template (prompt (ResumeSuggestionGenerator_init decode fi m)))"
  "Var ''experience_required'' \<in> set (template (prompt (ResumeSuggestionGenerator_init decode fi m)))"
  "Var ''tools'' \<in> set (template (prompt (ResumeSuggestionGenerator_init decode fi m)))"
  by (simp_all add: ResumeSuggestionGenerator_init_def ResumeSuggestionGenerator_setup_prompt_def)

lemma suggestions_inputs_lookup:
  "map_of (generate_suggestions_inputs jd resume) ''job_details'' = Some (job_title jd)"
  "map_of (generate_suggestions_inputs jd resume) ''required_skills''
     = Some (join '', '' (required_skills jd))"
  "map_of (generate_suggestions_inputs jd resume) ''experience_required''
     = Some (str_of_int (experience_required jd))"
  "map_of (generate_suggestions_inputs jd resume) ''tools'' = Some (join '', '' (tools jd))"
  by (simp_all add: generate_suggestions_inputs_def)

lemma str_of_int_5: "str_of_int 5 = ''5''"
  by code_simp

text \<open>What one run of the chain returns and what it leaves in the world.\<close>

lemma chain_invoke_fault:
  assumes "PromptTemplate_format (prompt self) kwargs = Inr p"
    and "svc (llm self) p = None"
  shows "fst (chain_invoke svc self kwargs w) = Inl GenerationError"
  using assms by (simp add: chain_invoke_def Let_def)

lemma chain_invoke_calls:
  assumes "PromptTemplate_format (prompt self) kwargs = Inr p"
  shows "calls (snd (chain_invoke svc self kwargs w)) = calls w @ [(llm self, p)]"
  using assms by (simp add: chain_invoke_def Let_def split: option.splits)

lemma chain_invoke_result:
  assumes "PromptTemplate_format (prompt self) kwargs = Inr p"
  shows "fst (chain_invoke svc self kwargs w) =
           (case svc (llm self) p of
              None \<Rightarrow> Inl GenerationError
            | Some t \<Rightarrow> output_parser self t)"
  using assms by (simp add: chain_invoke_def Let_def split: option.splits)

text \<open>The result of a run does not depend on the world it starts in.\<close>

lemma chain_invoke_spec:
  assumes "PromptTemplate_format (prompt self) kwargs = Inr p"
  shows "chain_invoke svc self kwargs w =
           (fst (chain_invoke svc self kwargs w0), w\<lparr>calls := calls w @ [(llm self, p)]\<rparr>)"
  using assms by (simp add: chain_invoke_def Let_def split: option.splits)

section \<open>Facts about validation and the analyzer\<close>

lemma validate_strs_strings: "validate_strs (map JString xs) = Some xs"
  by (induction xs) simp_all

text \<open>The parser the analyzer is built with, and what \<open>analyze\<close> makes of a reply.\<close>

lemma analyzer_parser:
  "output_parser (JobDescriptionAnalyzer_init decode lax fi m)
     = PydanticOutputParser decode (JobDetails_validate lax)"
  by (simp add: JobDescriptionAnalyzer_init_def)

lemma analyze_reply:
  assumes "\<And>p. svc (llm (JobDescriptionAnalyzer_init decode lax fi m)) p = Some reply"
  shows "fst (analyze svc (JobDescriptionAnalyzer_init decode lax fi m) jd w)
           = PydanticOutputParser decode (JobDetails_validate lax) reply"
proof -
  obtain p where "PromptTemplate_format (prompt (JobDescriptionAnalyzer_init decode lax fi m))
          [(''job_description'', jd)] = Inr p"
    using analyze_prompt_ok by blast
  then show ?thesis
    unfolding analyze_def by (simp add: chain_invoke_result assms analyzer_parser)
qed

lemma validate_roundtrip:
  assumes "obj_get kvs ''job_title'' = Some (JString t)"
    and "obj_get kvs ''required_skills'' = Some (JArray (map JString rs))"
    and "obj_get kvs ''experience_required'' = Some v"
    and "validate_int lax v = Some n"
    and "obj_get kvs ''tools'' = Some (JArray (map JString ts))"
    and "obj_get kvs ''soft_skills'' = Some (JArray (map JString ss))"
  shows "JobDetails_validate lax (JObject kvs) =
           Some \<lparr>job_title = t, required_skills = rs, experience_required = n,
                 tools = ts, soft_skills = ss\<rparr>"
  using assms by (simp add: required_def validate_strs_strings)

lemma validate_missing:
  assumes "k \<in> set JobDetails_fields"
    and "\<And>kvs. j = JObject kvs \<Longrightarrow> obj_get kvs k = None"
  shows "JobDetails_validate lax j = None"
proof (cases j)
  case (JObject kvs)
  with assms(2) have "obj_get kvs k = None" by simp
  with assms(1) JObject show ?thesis
    by (auto simp: required_def JobDetails_fields_def split: option.splits)
qed simp_all

lemma validate_experience_refused:
  assumes "obj_get kvs ''experience_required'' = Some v"
    and "validate_int lax v = None"
  shows "JobDetails_validate lax (JObject kvs) = None"
  using assms by (simp add: required_def split: option.splits)

section \<open>Parsing the job-description reply\<close>

text \<open>
  C1. For every JSON text that is well-formed and matches the JobDetails schema (the five
  mandatory fields present, each with its declared type), the job-description response
  parse succeeds and yields the record whose five fields are the values of the input:
  this is what the analyzer's parser makes of the text, and what \<open>analyze\<close> returns when
  the text is the reply of the generation service.
\<close>

theorem analyze_roundtrip:
  assumes "\<And>p. svc (llm (JobDescriptionAnalyzer_init decode lax fi m)) p = Some reply"
    and "decode reply = Some (JObject kvs)"
    and "obj_get kvs ''job_title'' = Some (JString t)"
    and "obj_get kvs ''required_skills'' = Some (JArray (map JString rs))"
    and "obj_get kvs ''experience_required'' = Some (JInt n)"
    and "obj_get kvs ''tools'' = Some (JArray (map JString ts))"
    and "obj_get kvs ''soft_skills'' = Some (JArray (map JString ss))"
  shows "output_parser (JobDescriptionAnalyzer_init decode lax fi m) reply
           = Inr \<lparr>job_title = t, required_skills = rs, experience_required = n,
                  tools = ts, soft_skills = ss\<rparr>
       \<and> fst (analyze svc (JobDescriptionAnalyzer_init decode lax fi m) jd w)
           = Inr \<lparr>job_title = t, required_skills = rs, experience_required = n,
                  tools = ts, soft_skills = ss\<rparr>"
proof -
  have "JobDetails_validate lax (JObject kvs) =
           Some \<lparr>job_title = t, required_skills = rs, experience_required = n,
                 tools = ts, soft_skills = ss\<rparr>"
    using assms(3-7) by (intro validate_roundtrip [where v = "JInt n"]) simp_all
  with assms(2) have "PydanticOutputParser decode (JobDetails_validate lax) reply
           = Inr \<lparr>job_title = t, required_skills = rs, experience_required = n,
                  tools = ts, soft_skills = ss\<rparr>"
    by (simp add: PydanticOutputParser_def)
  then show ?thesis
    using analyze_reply [of svc decode lax fi m reply jd w, OF assms(1)]
    by (simp add: analyzer_parser)
qed

theorem analyze_roundtrip_witness:
  \<open>output_parser
     (JobDescriptionAnalyzer_init
        [''{"job_title": "Developer", "required_skills": ["Python"], "experience_required": 5, "tools": ["Docker"], "soft_skills": []}''
           \<mapsto> JObject [(''job_title'', JString ''Developer''),
                      (''required_skills'', JArray [JString ''Python'']),
                      (''experience_required'', JInt 5),
                      (''tools'', JArray [JString ''Docker'']),
                      (''soft_skills'', JArray [])]]
        (\<lparr>str_as_int = [''5'' \<mapsto> 5], float_as_int = [5 \<mapsto> 5]\<rparr> :: rat lax_mode) [] ''mistral'')
     ''{"job_title": "Developer", "required_skills": ["Python"], "experience_required": 5, "tools": ["Docker"], "soft_skills": []}''
    = Inr \<lparr>job_title = ''Developer'', required_skills = [''Python''], experience_required = 5,
            tools = [''Docker''], soft_skills = []\<rparr>
   \<and> fst (analyze (\<lambda>cfg p. Some ''{"job_title": "Developer", "required_skills": ["Python"], "experience_required": 5, "tools": ["Docker"], "soft_skills": []}'')
     (JobDescriptionAnalyzer_init
        [''{"job_title": "Developer", "required_skills": ["Python"], "experience_required": 5, "tools": ["Docker"], "soft_skills": []}''
           \<mapsto> JObject [(''job_title'', JString ''Developer''),
                      (''required_skills'', JArray [JString ''Python'']),
                      (''experience_required'', JInt 5),
                      (''tools'', JArray [JString ''Docker'']),
                      (''soft_skills'', JArray [])]]
        (\<lparr>str_as_int = [''5'' \<mapsto> 5], float_as_int = [5 \<mapsto> 5]\<rparr> :: rat lax_mode) [] ''mistral'')
     job_description \<lparr>calls = [], stdout = []\<rparr>)
    = Inr \<lparr>job_title = ''Developer'', required_skills = [''Python''], experience_required = 5,
            tools = [''Docker''], soft_skills = []\<rparr>\<close>
  using analyze_roundtrip
    [where svc = \<open>\<lambda>cfg p. Some ''{"job_title": "Developer", "required_skills": ["Python"], "experience_required": 5, "tools": ["Docker"], "soft_skills": []}''\<close>
       and reply = \<open>''{"job_title": "Developer", "required_skills": ["Python"], "experience_required": 5, "tools": ["Docker"], "soft_skills": []}''\<close>
       and decode = \<open>[''{"job_title": "Developer", "required_skills": ["Python"], "experience_required": 5, "tools": ["Docker"], "soft_skills": []}''
                       \<mapsto> JObject [(''job_title'', JString ''Developer''),
                                     (''required_skills'', JArray [JString ''Python'']),
                                     (''experience_required'', JInt 5),
                                     (''tools'', JArray [JString ''Docker'']),
                                     (''soft_skills'', JArray [])]]\<close>
       and kvs = "[(''job_title'', JString ''Developer''),
               (''required_skills'', JArray [JString ''Python'']),
               (''experience_required'', JInt 5),
               (''tools'', JArray [JString ''Docker'']),
               (''soft_skills'', JArray [])]"
       and lax = "(\<lparr>str_as_int = [''5'' \<mapsto> 5], float_as_int = [5 \<mapsto> 5]\<rparr> :: rat lax_mode)"
       and fi = "[]" and m = "''mistral''" and jd = job_description
       and w = "\<lparr>calls = [], stdout = []\<rparr>"
       and t = "''Developer''" and rs = "[''Python'']" and n = 5 and ts = "[''Docker'']" and ss = "[]"]
  by (simp add: obj_get_def)

text \<open>
  C2. For every JSON text from which one of the mandatory JobDetails fields is absent (a
  text that is no object has none of them), the job-description response parse fails with
  a ParseValidationError: the analyzer's parser and \<open>analyze\<close> return that error, not a
  record and not a default.
\<close>

theorem analyze_missing_field:
  assumes "\<And>p. svc (llm (JobDescriptionAnalyzer_init decode lax fi m)) p = Some reply"
    and "decode reply = Some j"
    and "k \<in> set JobDetails_fields"
    and "\<And>kvs. j = JObject kvs \<Longrightarrow> obj_get kvs k = None"
  shows "output_parser (JobDescriptionAnalyzer_init decode lax fi m) reply
           = Inl ParseValidationError
       \<and> fst (analyze svc (JobDescriptionAnalyzer_init decode lax fi m) jd w)
           = Inl ParseValidationError"
proof -
  have "JobDetails_validate lax j = None"
    using assms(3,4) by (rule validate_missing)
  with assms(2) have "PydanticOutputParser decode (JobDetails_validate lax) reply
           = Inl ParseValidationError"
    by (simp add: PydanticOutputParser_def)
  then show ?thesis
    using analyze_reply [of svc decode lax fi m reply jd w, OF assms(1)]
    by (simp add: analyzer_parser)
qed

theorem analyze_missing_field_witness:
  \<open>''experience_required'' \<in> set JobDetails_fields
   \<and> output_parser
     (JobDescriptionAnalyzer_init
        [''{"job_title": "Developer", "required_skills": ["Python"], "tools": ["Docker"], "soft_skills": []}''
           \<mapsto> JObject [(''job_title'', JString ''Developer''),
                      (''required_skills'', JArray [JString ''Python'']),
                      (''tools'', JArray [JString ''Docker'']),
                      (''soft_skills'', JArray [])]]
        (\<lparr>str_as_int = [''5'' \<mapsto> 5], float_as_int = [5 \<mapsto> 5]\<rparr> :: rat lax_mode) [] ''mistral'')
     ''{"job_title": "Developer", "required_skills": ["Python"], "tools": ["Docker"], "soft_skills": []}''
    = Inl ParseValidationError
   \<and> fst (analyze (\<lambda>cfg p. Some ''{"job_title": "Developer", "required_skills": ["Python"], "tools": ["Docker"], "soft_skills": []}'')
     (JobDescriptionAnalyzer_init
        [''{"job_title": "Developer", "required_skills": ["Python"], "tools": ["Docker"], "soft_skills": []}''
           \<mapsto> JObject [(''job_title'', JString ''Developer''),
                      (''required_skills'', JArray [JString ''Python'']),
                      (''tools'', JArray [JString ''Docker'']),
                      (''soft_skills'', JArray [])]]
        (\<lparr>str_as_int = [''5'' \<mapsto> 5], float_as_int = [5 \<mapsto> 5]\<rparr> :: rat lax_mode) [] ''mistral'')
     job_description \<lparr>calls = [], stdout = []\<rparr>)
    = Inl ParseValidationError
   \<and> output_parser
     (JobDescriptionAnalyzer_init
        [''[]'' \<mapsto> JArray []]
        (\<lparr>str_as_int = [''5'' \<mapsto> 5], float_as_int = [5 \<mapsto> 5]\<rparr> :: rat lax_mode) [] ''mistral'')
     ''[]''
    = Inl ParseValidationError
   \<and> fst (analyze (\<lambda>cfg p. Some ''[]'')
     (JobDescriptionAnalyzer_init
        [''[]'' \<mapsto> JArray []]
        (\<lparr>str_as_int = [''5'' \<mapsto> 5], float_as_int = [5 \<mapsto> 5]\<rparr> :: rat lax_mode) [] ''mistral'')
     job_description \<lparr>calls = [], stdout = []\<rparr>)
    = Inl ParseValidationError\<close>
  using analyze_missing_field
    [where svc = \<open>\<lambda>cfg p. Some ''{"job_title": "Developer", "required_skills": ["Python"], "tools": ["Docker"], "soft_skills": []}''\<close>
       and reply = \<open>''{"job_title": "Developer", "required_skills": ["Python"], "tools": ["Docker"], "soft_skills": []}''\<close>
       and decode = \<open>[''{"job_title": "Developer", "required_skills": ["Python"], "tools": ["Docker"], "soft_skills": []}''
                       \<mapsto> JObject [(''job_title'', JString ''Developer''),
                                     (''required_skills'', JArray [JString ''Python'']),
                                     (''tools'', JArray [JString ''Docker'']),
                                     (''soft_skills'', JArray [])]]\<close>
       and j = "JObject [(''job_title'', JString ''Developer''),
                     (''required_skills'', JArray [JString ''Python'']),
                     (''tools'', JArray [JString ''Docker'']),
                     (''soft_skills'', JArray [])]"
       and lax = "(\<lparr>str_as_int = [''5'' \<mapsto> 5], float_as_int = [5 \<mapsto> 5]\<rparr> :: rat lax_mode)"
       and fi = "[]" and m = "''mistral''" and jd = job_description
       and w = "\<lparr>calls = [], stdout = []\<rparr>"
       and k = "''experience_required''"]
    analyze_missing_field
    [where svc = \<open>\<lambda>cfg p. Some ''[]''\<close>
       and reply = \<open>''[]''\<close>
       and decode = \<open>[''[]'' \<mapsto> JArray []]\<close>
       and j = "JArray [] :: rat json"
       and lax = "(\<lparr>str_as_int = [''5'' \<mapsto> 5], float_as_int = [5 \<mapsto> 5]\<rparr> :: rat lax_mode)"
       and fi = "[]" and m = "''mistral''" and jd = job_description
       and w = "\<lparr>calls = [], stdout = []\<rparr>"
       and k = "''experience_required''"]
  by (simp add: obj_get_def JobDetails_fields_def)

text \<open>
  C3, as stated: whenever \<open>experience_required\<close> is present with a value that is not an
  integer, the parse fails. It does not hold: the field is declared \<^verbatim>\<open>int\<close> and validated
  in the default mode, which reads the string \<^verbatim>\<open>"5"\<close> as the integer 5 and accepts it.
\<close>

theorem experience_string_accepted:
  \<open>output_parser
     (JobDescriptionAnalyzer_init
        [''{"job_title": "Developer", "required_skills": ["Python"], "experience_required": "5", "tools": ["Docker"], "soft_skills": []}''
           \<mapsto> JObject [(''job_title'', JString ''Developer''),
                      (''required_skills'', JArray [JString ''Python'']),
                      (''experience_required'', JString ''5''),
                      (''tools'', JArray [JString ''Docker'']),
                      (''soft_skills'', JArray [])]]
        (\<lparr>str_as_int = [''5'' \<mapsto> 5], float_as_int = [5 \<mapsto> 5]\<rparr> :: rat lax_mode) [] ''mistral'')
     ''{"job_title": "Developer", "required_skills": ["Python"], "experience_required": "5", "tools": ["Docker"], "soft_skills": []}''
    = Inr \<lparr>job_title = ''Developer'', required_skills = [''Python''], experience_required = 5,
            tools = [''Docker''], soft_skills = []\<rparr>
   \<and> fst (analyze (\<lambda>cfg p. Some ''{"job_title": "Developer", "required_skills": ["Python"], "experience_required": "5", "tools": ["Docker"], "soft_skills": []}'')
     (JobDescriptionAnalyzer_init
        [''{"job_title": "Developer", "required_skills": ["Python"], "experience_required": "5", "tools": ["Docker"], "soft_skills": []}''
           \<mapsto> JObject [(''job_title'', JString ''Developer''),
                      (''required_skills'', JArray [JString ''Python'']),
                      (''experience_required'', JString ''5''),
                      (''tools'', JArray [JString ''Docker'']),
                      (''soft_skills'', JArray [])]]
        (\<lparr>str_as_int = [''5'' \<mapsto> 5], float_as_int = [5 \<mapsto> 5]\<rparr> :: rat lax_mode) [] ''mistral'')
     job_description \<lparr>calls = [], stdout = []\<rparr>)
    = Inr \<lparr>job_title = ''Developer'', required_skills = [''Python''], experience_required = 5,
            tools = [''Docker''], soft_skills = []\<rparr>\<close>
  by (simp add: analyzer_parser analyze_reply PydanticOutputParser_def required_def obj_get_def)

text \<open>
  C3, amended. For every JSON text in which \<open>experience_required\<close> is present, the parse
  fails with a ParseValidationError when the value is null, an array, an object, or a
  string or a floating-point number that the schema library does not convert to an
  integer. Every other value that is not an integer is accepted: a boolean as 0 or 1, and
  a string or a floating-point number as the integer the library converts it to; with the
  other four fields of their declared types, the record holds that integer.
\<close>

theorem analyze_experience_lax:
  assumes "\<And>p. svc (llm (JobDescriptionAnalyzer_init decode lax fi m)) p = Some reply"
    and "decode reply = Some (JObject kvs)"
    and "obj_get kvs ''experience_required'' = Some v"
  shows "((v = JNull \<or> (\<exists>xs. v = JArray xs) \<or> (\<exists>ms. v = JObject ms)
           \<or> (\<exists>s. v = JString s \<and> str_as_int lax s = None)
           \<or> (\<exists>f. v = JFloat f \<and> float_as_int lax f = None))
          \<longrightarrow> output_parser (JobDescriptionAnalyzer_init decode lax fi m) reply
                = Inl ParseValidationError
              \<and> fst (analyze svc (JobDescriptionAnalyzer_init decode lax fi m) jd w)
                = Inl ParseValidationError)
       \<and> (((v = JBool True \<and> n = 1) \<or> (v = JBool False \<and> n = 0)
            \<or> (\<exists>s. v = JString s \<and> str_as_int lax s = Some n)
            \<or> (\<exists>f. v = JFloat f \<and> float_as_int lax f = Some n))
           \<and> obj_get kvs ''job_title'' = Some (JString t)
           \<and> obj_get kvs ''required_skills'' = Some (JArray (map JString rs))
           \<and> obj_get kvs ''tools'' = Some (JArray (map JString ts))
           \<and> obj_get kvs ''soft_skills'' = Some (JArray (map JString ss))
          \<longrightarrow> output_parser (JobDescriptionAnalyzer_init decode lax fi m) reply
                = Inr \<lparr>job_title = t, required_skills = rs, experience_required = n,
                       tools = ts, soft_skills = ss\<rparr>
              \<and> fst (analyze svc (JobDescriptionAnalyzer_init decode lax fi m) jd w)
                = Inr \<lparr>job_title = t, required_skills = rs, experience_required = n,
                       tools = ts, soft_skills = ss\<rparr>)"
proof (intro conjI impI)
  assume "v = JNull \<or> (\<exists>xs. v = JArray xs) \<or> (\<exists>ms. v = JObject ms)
           \<or> (\<exists>s. v = JString s \<and> str_as_int lax s = None)
           \<or> (\<exists>f. v = JFloat f \<and> float_as_int lax f = None)"
  then have "validate_int lax v = None" by auto
  with assms(3) have "JobDetails_validate lax (JObject kvs) = None"
    by (rule validate_experience_refused)
  with assms(2) have r: "PydanticOutputParser decode (JobDetails_validate lax) reply
           = Inl ParseValidationError"
    by (simp add: PydanticOutputParser_def)
  from r show "output_parser (JobDescriptionAnalyzer_init decode lax fi m) reply
                = Inl ParseValidationError"
    by (simp add: analyzer_parser)
  from r show "fst (analyze svc (JobDescriptionAnalyzer_init decode lax fi m) jd w)
                = Inl ParseValidationError"
    using analyze_reply [of svc decode lax fi m reply jd w, OF assms(1)] by simp
next
  assume a: "((v = JBool True \<and> n = 1) \<or> (v = JBool False \<and> n = 0)
            \<or> (\<exists>s. v = JString s \<and> str_as_int lax s = Some n)
            \<or> (\<exists>f. v = JFloat f \<and> float_as_int lax f = Some n))
           \<and> obj_get kvs ''job_title'' = Some (JString t)
           \<and> obj_get kvs ''required_skills'' = Some (JArray (map JString rs))
           \<and> obj_get kvs ''tools'' = Some (JArray (map JString ts))
           \<and> obj_get kvs ''soft_skills'' = Some (JArray (map JString ss))"
  then have "validate_int lax v = Some n" by auto
  with a assms(3) have "JobDetails_validate lax (JObject kvs) =
           Some \<lparr>job_title = t, required_skills = rs, experience_required = n,
                 tools = ts, soft_skills = ss\<rparr>"
    by (intro validate_roundtrip) simp_all
  with assms(2) have r: "PydanticOutputParser decode (JobDetails_validate lax) reply
           = Inr \<lparr>job_title = t, required_skills = rs, experience_required = n,
                  tools = ts, soft_skills = ss\<rparr>"
    by (simp add: PydanticOutputParser_def)
  from r show "output_parser (JobDescriptionAnalyzer_init decode lax fi m) reply
                = Inr \<lparr>job_title = t, required_skills = rs, experience_required = n,
                       tools = ts, soft_skills = ss\<rparr>"
    by (simp add: analyzer_parser)
  from r show "fst (analyze svc (JobDescriptionAnalyzer_init decode lax fi m) jd w)
                = Inr \<lparr>job_title = t, required_skills = rs, experience_required = n,
                       tools = ts, soft_skills = ss\<rparr>"
    using analyze_reply [of svc decode lax fi m reply jd w, OF assms(1)] by simp
qed

theorem analyze_experience_lax_witness:
  \<open>output_parser
     (JobDescriptionAnalyzer_init
        [''{"job_title": "Developer", "required_skills": ["Python"], "experience_required": "5 years", "tools": ["Docker"], "soft_skills": []}''
           \<mapsto> JObject [(''job_title'', JString ''Developer''),
                      (''required_skills'', JArray [JString ''Python'']),
                      (''experience_required'', JString ''5 years''),
                      (''tools'', JArray [JString ''Docker'']),
                      (''soft_skills'', JArray [])]]
        (\<lparr>str_as_int = [''5'' \<mapsto> 5], float_as_int = [5 \<mapsto> 5]\<rparr> :: rat lax_mode) [] ''mistral'')
     ''{"job_title": "Developer", "required_skills": ["Python"], "experience_required": "5 years", "tools": ["Docker"], "soft_skills": []}''
    = Inl ParseValidationError
   \<and> fst (analyze (\<lambda>cfg p. Some ''{"job_title": "Developer", "required_skills": ["Python"], "experience_required": "5 years", "tools": ["Docker"], "soft_skills": []}'')
     (JobDescriptionAnalyzer_init
        [''{"job_title": "Developer", "required_skills": ["Python"], "experience_required": "5 years", "tools": ["Docker"], "soft_skills": []}''
           \<mapsto> JObject [(''job_title'', JString ''Developer''),
                      (''required_skills'', JArray [JString ''Python'']),
                      (''experience_required'', JString ''5 years''),
                      (''tools'', JArray [JString ''Docker'']),
                      (''soft_skills'', JArray [])]]
        (\<lparr>str_as_int = [''5'' \<mapsto> 5], float_as_int = [5 \<mapsto> 5]\<rparr> :: rat lax_mode) [] ''mistral'')
     job_description \<lparr>calls = [], stdout = []\<rparr>)
    = Inl ParseValidationError
   \<and> output_parser
     (JobDescriptionAnalyzer_init
        [''{"job_title": "Developer", "required_skills": ["Python"], "experience_required": true, "tools": ["Docker"], "soft_skills": []}''
           \<mapsto> JObject [(''job_title'', JString ''Developer''),
                      (''required_skills'', JArray [JString ''Python'']),
                      (''experience_required'', JBool True),
                      (''tools'', JArray [JString ''Docker'']),
                      (''soft_skills'', JArray [])]]
        (\<lparr>str_as_int = [''5'' \<mapsto> 5], float_as_int = [5 \<mapsto> 5]\<rparr> :: rat lax_mode) [] ''mistral'')
     ''{"job_title": "Developer", "required_skills": ["Python"], "experience_required": true, "tools": ["Docker"], "soft_skills": []}''
    = Inr \<lparr>job_title = ''Developer'', required_skills = [''Python''], experience_required = 1,
            tools = [''Docker''], soft_skills = []\<rparr>
   \<and> fst (analyze (\<lambda>cfg p. Some ''{"job_title": "Developer", "required_skills": ["Python"], "experience_required": true, "tools": ["Docker"], "soft_skills": []}'')
     (JobDescriptionAnalyzer_init
        [''{"job_title": "Developer", "required_skills": ["Python"], "experience_required": true, "tools": ["Docker"], "soft_skills": []}''
           \<mapsto> JObject [(''job_title'', JString ''Developer''),
                      (''required_skills'', JArray [JString ''Python'']),
                      (''experience_required'', JBool True),
                      (''tools'', JArray [JString ''Docker'']),
                      (''soft_skills'', JArray [])]]
        (\<lparr>str_as_int = [''5'' \<mapsto> 5], float_as_int = [5 \<mapsto> 5]\<rparr> :: rat lax_mode) [] ''mistral'')
     job_description \<lparr>calls = [], stdout = []\<rparr>)
    = Inr \<lparr>job_title = ''Developer'', required_skills = [''Python''], experience_required = 1,
            tools = [''Docker''], soft_skills = []\<rparr>\<close>
  using analyze_experience_lax
    [where svc = \<open>\<lambda>cfg p. Some ''{"job_title": "Developer", "required_skills": ["Python"], "experience_required": "5 years", "tools": ["Docker"], "soft_skills": []}''\<close>
       and reply = \<open>''{"job_title": "Developer", "required_skills": ["Python"], "experience_required": "5 years", "tools": ["Docker"], "soft_skills": []}''\<close>
       and decode = \<open>[''{"job_title": "Developer", "required_skills": ["Python"], "experience_required": "5 years", "tools": ["Docker"], "soft_skills": []}''
                       \<mapsto> JObject [(''job_title'', JString ''Developer''),
                                     (''required_skills'', JArray [JString ''Python'']),
                                     (''experience_required'', JString ''5 years''),
                                     (''tools'', JArray [JString ''Docker'']),
                                     (''soft_skills'', JArray [])]]\<close>
       and kvs = "[(''job_title'', JString ''Developer''),
               (''required_skills'', JArray [JString ''Python'']),
               (''experience_required'', JString ''5 years''),
               (''tools'', JArray [JString ''Docker'']),
               (''soft_skills'', JArray [])]"
       and lax = "(\<lparr>str_as_int = [''5'' \<mapsto> 5], float_as_int = [5 \<mapsto> 5]\<rparr> :: rat lax_mode)"
       and fi = "[]" and m = "''mistral''" and jd = job_description
       and w = "\<lparr>calls = [], stdout = []\<rparr>"
       and v = "JString ''5 years''"]
    analyze_experience_lax
    [where svc = \<open>\<lambda>cfg p. Some ''{"job_title": "Developer", "required_skills": ["Python"], "experience_required": true, "tools": ["Docker"], "soft_skills": []}''\<close>
       and reply = \<open>''{"job_title": "Developer", "required_skills": ["Python"], "experience_required": true, "tools": ["Docker"], "soft_skills": []}''\<close>
       and decode = \<open>[''{"job_title": "Developer", "required_skills": ["Python"], "experience_required": true, "tools": ["Docker"], "soft_skills": []}''
                       \<mapsto> JObject [(''job_title'', JString ''Developer''),
                                     (''required_skills'', JArray [JString ''Python'']),
                                     (''experience_required'', JBool True),
                                     (''tools'', JArray [JString ''Docker'']),
                                     (''soft_skills'', JArray [])]]\<close>
       and kvs = "[(''job_title'', JString ''Developer''),
               (''required_skills'', JArray [JString ''Python'']),
               (''experience_required'', JBool True),
               (''tools'', JArray [JString ''Docker'']),
               (''soft_skills'', JArray [])]"
       and lax = "(\<lparr>str_as_int = [''5'' \<mapsto> 5], float_as_int = [5 \<mapsto> 5]\<rparr> :: rat lax_mode)"
       and fi = "[]" and m = "''mistral''" and jd = job_description
       and w = "\<lparr>calls = [], stdout = []\<rparr>"
       and v = "JBool True" and n = 1
       and t = "''Developer''" and rs = "[''Python'']" and ts = "[''Docker'']" and ss = "[]"]
  by (simp add: obj_get_def)

text \<open>
  C4, as stated: an input whose \<open>experience_required\<close> is a negative integer never yields a
  record. It does not hold: the field is declared \<^verbatim>\<open>int\<close> with no lower bound, and the
  reply below, with the value -3, is accepted as it is.
\<close>

theorem negative_experience_parsed:
  \<open>PydanticOutputParser
     [''{"job_title": "Developer", "required_skills": ["Python"], "experience_required": -3, "tools": ["Docker"], "soft_skills": []}''
        \<mapsto> JObject [(''job_title'', JString ''Developer''),
                       (''required_skills'', JArray [JString ''Python'']),
                       (''experience_required'', JInt (- 3)),
                       (''tools'', JArray [JString ''Docker'']),
                       (''soft_skills'', JArray [])]]
     (JobDetails_validate (\<lparr>str_as_int = [''5'' \<mapsto> 5], float_as_int = [5 \<mapsto> 5]\<rparr> :: rat lax_mode))
     ''{"job_title": "Developer", "required_skills": ["Python"], "experience_required": -3, "tools": ["Docker"], "soft_skills": []}''
   = Inr \<lparr>job_title = ''Developer'', required_skills = [''Python''], experience_required = - 3,
          tools = [''Docker''], soft_skills = []\<rparr>\<close>
  by (simp add: PydanticOutputParser_def required_def obj_get_def)

text \<open>
  C4, amended. The \<open>experience_required\<close> of an accepted record is an integer of either
  sign: for every input JSON whose \<open>experience_required\<close> is a negative integer \<open>n\<close> and
  whose other four fields are present with their declared types, parsing yields a
  JobDetails record with \<open>experience_required = n\<close>.
\<close>

theorem negative_experience_accepted:
  assumes "decode reply = Some (JObject kvs)"
    and "obj_get kvs ''job_title'' = Some (JString t)"
    and "obj_get kvs ''required_skills'' = Some (JArray (map JString rs))"
    and "obj_get kvs ''experience_required'' = Some (JInt n)"
    and "n < 0"
    and "obj_get kvs ''tools'' = Some (JArray (map JString ts))"
    and "obj_get kvs ''soft_skills'' = Some (JArray (map JString ss))"
  shows "\<exists>r. PydanticOutputParser decode (JobDetails_validate lax) reply = Inr r
           \<and> experience_required r = n \<and> experience_required r < 0"
  using assms by (simp add: PydanticOutputParser_def required_def validate_strs_strings)

theorem negative_experience_accepted_witness:
  \<open>\<exists>r. PydanticOutputParser
     [''{"job_title": "Developer", "required_skills": ["Python"], "experience_required": -1, "tools": ["Docker"], "soft_skills": []}''
        \<mapsto> JObject [(''job_title'', JString ''Developer''),
                       (''required_skills'', JArray [JString ''Python'']),
                       (''experience_required'', JInt (- 1)),
                       (''tools'', JArray [JString ''Docker'']),
                       (''soft_skills'', JArray [])]]
     (JobDetails_validate (\<lparr>str_as_int = [''5'' \<mapsto> 5], float_as_int = [5 \<mapsto> 5]\<rparr> :: rat lax_mode))
     ''{"job_title": "Developer", "required_skills": ["Python"], "experience_required": -1, "tools": ["Docker"], "soft_skills": []}''
   = Inr r \<and> experience_required r = - 1 \<and> experience_required r < 0\<close>
  using negative_experience_accepted
    [where decode = \<open>[''{"job_title": "Developer", "required_skills": ["Python"], "experience_required": -1, "tools": ["Docker"], "soft_skills": []}''
                       \<mapsto> JObject [(''job_title'', JString ''Developer''),
                       (''required_skills'', JArray [JString ''Python'']),
                       (''experience_required'', JInt (- 1)),
                       (''tools'', JArray [JString ''Docker'']),
                       (''soft_skills'', JArray [])]]\<close>
       and reply = \<open>''{"job_title": "Developer", "required_skills": ["Python"], "experience_required": -1, "tools": ["Docker"], "soft_skills": []}''\<close>
       and kvs = "[(''job_title'', JString ''Developer''),
               (''required_skills'', JArray [JString ''Python'']),
               (''experience_required'', JInt (- 1)),
               (''tools'', JArray [JString ''Docker'']),
               (''soft_skills'', JArray [])]"
       and lax = "(\<lparr>str_as_int = [''5'' \<mapsto> 5], float_as_int = [5 \<mapsto> 5]\<rparr> :: rat lax_mode)"
       and t = "''Developer''" and rs = "[''Python'']" and n = "- 1" and ts = "[''Docker'']" and ss = "[]"]
  by (simp add: obj_get_def)

section \<open>Faults of the generation service\<close>

text \<open>
  C5. If the generation service fails on the request, each of the three operations
  (\<open>analyze\<close>, \<open>generate_suggestions\<close>, \<open>generate\<close>) returns that failure to its caller as
  a GenerationError, whatever its input; none of them catches it.
\<close>

theorem service_fault_propagates:
  assumes "\<And>p. svc (llm (JobDescriptionAnalyzer_init decode lax fi_job m_a)) p = None"
    and "\<And>p. svc (llm (ResumeSuggestionGenerator_init decode fi_resume m_g)) p = None"
    and "\<And>p. svc (llm (CoverLetterGenerator_init m_c)) p = None"
  shows "fst (analyze svc (JobDescriptionAnalyzer_init decode lax fi_job m_a) jd w)
           = Inl GenerationError
       \<and> fst (generate_suggestions svc (ResumeSuggestionGenerator_init decode fi_resume m_g)
                details resume w)
           = Inl GenerationError
       \<and> fst (generate svc (CoverLetterGenerator_init m_c) name title company ach req w)
           = Inl GenerationError"
proof (intro conjI)
  obtain p where "PromptTemplate_format (prompt (JobDescriptionAnalyzer_init decode lax fi_job m_a))
          [(''job_description'', jd)] = Inr p"
    using analyze_prompt_ok by blast
  then show "fst (analyze svc (JobDescriptionAnalyzer_init decode lax fi_job m_a) jd w)
      = Inl GenerationError"
    unfolding analyze_def using assms(1) by (rule chain_invoke_fault)
next
  obtain p where "PromptTemplate_format (prompt (ResumeSuggestionGenerator_init decode fi_resume m_g))
          (generate_suggestions_inputs details resume) = Inr p"
    using suggestions_prompt_ok by blast
  then show "fst (generate_suggestions svc (ResumeSuggestionGenerator_init decode fi_resume m_g)
                details resume w)
           = Inl GenerationError"
    unfolding generate_suggestions_def using assms(2) by (rule chain_invoke_fault)
next
  obtain p where "PromptTemplate_format (prompt (CoverLetterGenerator_init m_c))
          (generate_inputs name title company ach req) = Inr p"
    using generate_prompt_ok by blast
  then show "fst (generate svc (CoverLetterGenerator_init m_c) name title company ach req w)
           = Inl GenerationError"
    unfolding generate_def using assms(3) by (rule chain_invoke_fault)
qed

theorem service_fault_propagates_witness:
  "fst (analyze (\<lambda>cfg p. None) (JobDescriptionAnalyzer_init (Map.empty :: string \<Rightarrow> rat json option)
          \<lparr>str_as_int = [''5'' \<mapsto> 5], float_as_int = [5 \<mapsto> 5]\<rparr> [] ''mistral'')
          job_description \<lparr>calls = [], stdout = []\<rparr>)
     = Inl GenerationError
   \<and> fst (generate_suggestions (\<lambda>cfg p. None)
            (ResumeSuggestionGenerator_init (Map.empty :: string \<Rightarrow> rat json option) [] ''mistral'')
            \<lparr>job_title = ''Senior Python Developer'', required_skills = [''Python'', ''PostgreSQL''],
             experience_required = 5, tools = [''Docker''], soft_skills = []\<rparr>
            sample_resume \<lparr>calls = [], stdout = []\<rparr>)
     = Inl GenerationError
   \<and> fst (generate (\<lambda>cfg p. None) (CoverLetterGenerator_init ''mistral'')
            ''John Doe'' ''Senior Python Developer'' ''Tech Corp'' key_achievements
            ''Python, Django'' \<lparr>calls = [], stdout = []\<rparr>)
     = Inl GenerationError"
  using service_fault_propagates [where svc = "\<lambda>cfg p. None"]
  by simp

section \<open>The rendered prompts\<close>

text \<open>
  C6. For the JobDetails record with job_title "Senior Python Developer", required_skills
  ["Python", "PostgreSQL"], experience_required 5 and tools ["Docker"], the prompt that the
  resume-suggestion generator renders, and sends to the generation service, contains each
  of the substrings "Senior Python Developer", "Python, PostgreSQL", "5" and "Docker".
\<close>

theorem suggestion_prompt_contains:
  "\<exists>p. PromptTemplate_format (prompt (ResumeSuggestionGenerator_init decode fi m))
          (generate_suggestions_inputs
             \<lparr>job_title = ''Senior Python Developer'',
              required_skills = [''Python'', ''PostgreSQL''],
              experience_required = 5,
              tools = [''Docker''],
              soft_skills = ss\<rparr> resume) = Inr p
       \<and> calls (snd (generate_suggestions svc (ResumeSuggestionGenerator_init decode fi m)
                \<lparr>job_title = ''Senior Python Developer'',
                 required_skills = [''Python'', ''PostgreSQL''],
                 experience_required = 5,
                 tools = [''Docker''],
                 soft_skills = ss\<rparr> resume w))
           = calls w @ [(llm (ResumeSuggestionGenerator_init decode fi m), p)]
       \<and> sublist ''Senior Python Developer'' p
       \<and> sublist ''Python, PostgreSQL'' p
       \<and> sublist ''5'' p
       \<and> sublist ''Docker'' p"
proof -
  define jd where "jd = \<lparr>job_title = ''Senior Python Developer'',
              required_skills = [''Python'', ''PostgreSQL''],
              experience_required = 5,
              tools = [''Docker''],
              soft_skills = ss\<rparr>"
  define G where "G = ResumeSuggestionGenerator_init decode fi m"
  obtain p where p: "PromptTemplate_format (prompt G) (generate_suggestions_inputs jd resume) = Inr p"
    unfolding G_def using suggestions_prompt_ok by blast
  have "sublist (job_title jd) p"
    using p unfolding G_def
    by (rule PromptTemplate_format_value) (rule suggestions_template_vars suggestions_inputs_lookup)+
  moreover have "job_title jd = ''Senior Python Developer''"
    by (simp add: jd_def)
  ultimately have title: "sublist ''Senior Python Developer'' p"
    by simp
  have "sublist (join '', '' (required_skills jd)) p"
    using p unfolding G_def
    by (rule PromptTemplate_format_value) (rule suggestions_template_vars suggestions_inputs_lookup)+
  moreover have "join '', '' (required_skills jd) = ''Python, PostgreSQL''"
    by (simp add: jd_def)
  ultimately have skills: "sublist ''Python, PostgreSQL'' p"
    by simp
  have "sublist (str_of_int (experience_required jd)) p"
    using p unfolding G_def
    by (rule PromptTemplate_format_value) (rule suggestions_template_vars suggestions_inputs_lookup)+
  moreover have "str_of_int (experience_required jd) = ''5''"
    by (simp add: jd_def str_of_int_5)
  ultimately have years: "sublist ''5'' p"
    by simp
  have "sublist (join '', '' (tools jd)) p"
    using p unfolding G_def
    by (rule PromptTemplate_format_value) (rule suggestions_template_vars suggestions_inputs_lookup)+
  moreover have "join '', '' (tools jd) = ''Docker''"
    by (simp add: jd_def)
  ultimately have tools: "sublist ''Docker'' p"
    by simp
  have sent: "calls (snd (generate_suggestions svc G jd resume w)) = calls w @ [(llm G, p)]"
    unfolding generate_suggestions_def using p by (rule chain_invoke_calls)
  from p sent title skills years tools show ?thesis
    unfolding jd_def G_def by (intro exI conjI)
qed

text \<open>
  C10. The prompt of the resume-suggestion generator does not depend on the soft_skills of
  the JobDetails record: for two records that differ at most in soft_skills and one resume
  text, the rendered prompts are the same, and so, for one generation service, are the
  results.
\<close>

theorem soft_skills_not_used:
  assumes "job_title a = job_title b"
    and "required_skills a = required_skills b"
    and "experience_required a = experience_required b"
    and "tools a = tools b"
  shows "PromptTemplate_format (prompt self) (generate_suggestions_inputs a resume)
           = PromptTemplate_format (prompt self) (generate_suggestions_inputs b resume)
       \<and> generate_suggestions svc self a resume w = generate_suggestions svc self b resume w"
  using assms by (simp add: generate_suggestions_def generate_suggestions_inputs_def)

theorem soft_skills_not_used_witness:
  "generate_suggestions (\<lambda>cfg p. Some p)
     (ResumeSuggestionGenerator_init (Map.empty :: string \<Rightarrow> rat json option) [] ''mistral'')
     \<lparr>job_title = ''Senior Python Developer'', required_skills = [''Python'', ''PostgreSQL''],
      experience_required = 5, tools = [''Docker''], soft_skills = [''Leadership'']\<rparr>
     sample_resume \<lparr>calls = [], stdout = []\<rparr>
   = generate_suggestions (\<lambda>cfg p. Some p)
     (ResumeSuggestionGenerator_init (Map.empty :: string \<Rightarrow> rat json option) [] ''mistral'')
     \<lparr>job_title = ''Senior Python Developer'', required_skills = [''Python'', ''PostgreSQL''],
      experience_required = 5, tools = [''Docker''], soft_skills = []\<rparr>
     sample_resume \<lparr>calls = [], stdout = []\<rparr>"
  using soft_skills_not_used
    [where a = "\<lparr>job_title = ''Senior Python Developer'',
                  required_skills = [''Python'', ''PostgreSQL''],
                  experience_required = 5, tools = [''Docker''], soft_skills = [''Leadership'']\<rparr>"
       and b = "\<lparr>job_title = ''Senior Python Developer'',
                  required_skills = [''Python'', ''PostgreSQL''],
                  experience_required = 5, tools = [''Docker''], soft_skills = []\<rparr>"]
  by simp

section \<open>The cover letter\<close>

text \<open>
  C7. For every candidate name, job title, company name, non-empty achievements text and
  non-empty requirements text, the cover-letter generator never fails with a validation
  error: the prompt is rendered, and the result is the text of the generation service as
  it is, or a GenerationError when the service fails; there is no other outcome.
\<close>

theorem cover_letter_passthrough:
  assumes "achievements \<noteq> []" and "requirements \<noteq> []"
  shows "\<exists>p. PromptTemplate_format (prompt (CoverLetterGenerator_init m))
               (generate_inputs candidate_name title company_name achievements requirements)
             = Inr p
          \<and> fst (generate svc (CoverLetterGenerator_init m) candidate_name title company_name
                   achievements requirements w)
             = (case svc (llm (CoverLetterGenerator_init m)) p of
                  None \<Rightarrow> Inl GenerationError
                | Some text \<Rightarrow> Inr text)"
proof -
  obtain p where p: "PromptTemplate_format (prompt (CoverLetterGenerator_init m))
               (generate_inputs candidate_name title company_name achievements requirements)
             = Inr p"
    using generate_prompt_ok by blast
  have "output_parser (CoverLetterGenerator_init m) = StrOutputParser"
    by (simp add: CoverLetterGenerator_init_def)
  then have "fst (generate svc (CoverLetterGenerator_init m) candidate_name title company_name
                   achievements requirements w)
             = (case svc (llm (CoverLetterGenerator_init m)) p of
                  None \<Rightarrow> Inl GenerationError
                | Some text \<Rightarrow> Inr text)"
    unfolding generate_def chain_invoke_result [OF p]
    by (simp add: StrOutputParser_def split: option.splits)
  with p show ?thesis by blast
qed

theorem cover_letter_passthrough_witness:
  "''Mentored 2 junior developers'' \<noteq> [] \<and> ''Python, Django'' \<noteq> []
   \<and> fst (generate (\<lambda>cfg p. Some ''Dear Hiring Manager'') (CoverLetterGenerator_init ''mistral'')
            ''John Doe'' ''Senior Python Developer'' ''Tech Corp''
            ''Mentored 2 junior developers'' ''Python, Django'' \<lparr>calls = [], stdout = []\<rparr>)
     = Inr ''Dear Hiring Manager''"
  using cover_letter_passthrough
    [where achievements = "''Mentored 2 junior developers''"
       and requirements = "''Python, Django''"
       and svc = "\<lambda>cfg p. Some ''Dear Hiring Manager''"
       and m = "''mistral''" and candidate_name = "''John Doe''"
       and title = "''Senior Python Developer''" and company_name = "''Tech Corp''"
       and w = "\<lparr>calls = [], stdout = []\<rparr>"]
  by auto

section \<open>Temperatures\<close>

text \<open>
  C8. Every invocation of a component sends one request to the generation service, at the
  temperature fixed for its feature: 0.3 for the job-description analyzer, 0.5 for the
  resume-suggestion generator, 0.7 for the cover-letter generator.
\<close>

theorem fixed_temperatures:
  "map (temperature \<circ> fst)
       (calls (snd (analyze svc (JobDescriptionAnalyzer_init decode lax fi_job m_a) jd w)))
     = map (temperature \<circ> fst) (calls w) @ [3 / 10]
   \<and> map (temperature \<circ> fst)
       (calls (snd (generate_suggestions svc (ResumeSuggestionGenerator_init decode fi_resume m_g)
                      details resume w)))
     = map (temperature \<circ> fst) (calls w) @ [5 / 10]
   \<and> map (temperature \<circ> fst)
       (calls (snd (generate svc (CoverLetterGenerator_init m_c) name title company ach req w)))
     = map (temperature \<circ> fst) (calls w) @ [7 / 10]"
proof (intro conjI)
  obtain p where "PromptTemplate_format (prompt (JobDescriptionAnalyzer_init decode lax fi_job m_a))
          [(''job_description'', jd)] = Inr p"
    using analyze_prompt_ok by blast
  then show "map (temperature \<circ> fst)
       (calls (snd (analyze svc (JobDescriptionAnalyzer_init decode lax fi_job m_a) jd w)))
     = map (temperature \<circ> fst) (calls w) @ [3 / 10]"
    by (simp add: analyze_def chain_invoke_calls JobDescriptionAnalyzer_init_def)
next
  obtain p where "PromptTemplate_format (prompt (ResumeSuggestionGenerator_init decode fi_resume m_g))
          (generate_suggestions_inputs details resume) = Inr p"
    using suggestions_prompt_ok by blast
  then show "map (temperature \<circ> fst)
       (calls (snd (generate_suggestions svc (ResumeSuggestionGenerator_init decode fi_resume m_g)
                      details resume w)))
     = map (temperature \<circ> fst) (calls w) @ [5 / 10]"
    by (simp add: generate_suggestions_def chain_invoke_calls ResumeSuggestionGenerator_init_def)
next
  obtain p where "PromptTemplate_format (prompt (CoverLetterGenerator_init m_c))
          (generate_inputs name title company ach req) = Inr p"
    using generate_prompt_ok by blast
  then show "map (temperature \<circ> fst)
       (calls (snd (generate svc (CoverLetterGenerator_init m_c) name title company ach req w)))
     = map (temperature \<circ> fst) (calls w) @ [7 / 10]"
    by (simp add: generate_def chain_invoke_calls CoverLetterGenerator_init_def)
qed

section \<open>The driver reports and stops\<close>

lemma calls_print: "calls (print s w) = calls w"
  by (simp add: print_def)

lemma stdout_print: "stdout (print s w) = stdout w @ [s]"
  by (simp add: print_def)

lemma calls_prints: "calls (prints ss w) = calls w"
  by (induction ss arbitrary: w) (simp_all add: calls_print)

lemma stdout_prints: "stdout (prints ss w) = stdout w @ ss"
  by (induction ss arbitrary: w) (simp_all add: stdout_print)

text \<open>
  C9. The driver runs the three pipelines in order. When one of them fails, the failure is
  caught, its line is printed, and the driver returns: no request of a later pipeline is
  sent, nothing of a later pipeline is printed, and the success banner is not printed. The
  three lines of the banner are printed, last, exactly when all three pipelines succeed.
  In each of the four cases the theorem gives the requests sent and the whole output.
\<close>

theorem main_report_and_stop:
  "let A = JobDescriptionAnalyzer_init decode lax fi_job ''mistral'';
       G = ResumeSuggestionGenerator_init decode fi_resume ''mistral'';
       C = CoverLetterGenerator_init ''mistral'';
       w = main svc decode lax fi_job fi_resume str_of_exc w0;
       sent = map (temperature \<circ> fst) (calls w0);
       feature_1 =
         [''\<newline>'' @ replicate 80 CHR ''='',
          ''PROJECT 1: AI JOB APPLICATION ASSISTANT'',
          replicate 80 CHR ''='',
          ''\<newline>'' @ replicate 80 CHR ''-'',
          ''FEATURE 1: JOB DESCRIPTION ANALYZER'',
          replicate 80 CHR ''-''];
       feature_2 = (\<lambda>job_details :: JobDetails.
         [''\<newline>'' @ check_mark @ '' Extracted Job Details:'',
          ''   Job Title: '' @ job_title job_details,
          ''   Experience Required: '' @ str_of_int (experience_required job_details) @ '' years'',
          ''   Required Skills: '' @ join '', '' (required_skills job_details),
          ''   Tools: '' @ join '', '' (tools job_details),
          ''   Soft Skills: '' @ join '', '' (soft_skills job_details),
          ''\<newline>'' @ replicate 80 CHR ''-'',
          ''FEATURE 2: RESUME IMPROVEMENT SUGGESTIONS'',
          replicate 80 CHR ''-'']);
       feature_3 = (\<lambda>suggestions :: ResumeSuggestions.
         [''\<newline>'' @ check_mark @ '' Resume Improvement Suggestions:'',
          ''\<newline>   Missing Skills to Add:'']
         @ map (\<lambda>skill. ''      '' @ bullet @ '' '' @ skill) (missing_skills suggestions)
         @ [''\<newline>   Improvement Points:'']
         @ map (\<lambda>point. ''      '' @ bullet @ '' '' @ point) (improvement_points suggestions)
         @ [''\<newline>   Overall Fit Summary: '' @ overall_fit_summary suggestions,
            ''\<newline>'' @ replicate 80 CHR ''-'',
            ''FEATURE 3: COVER LETTER GENERATOR'',
            replicate 80 CHR ''-''])
   in case fst (analyze svc A job_description w0) of
        Inl e \<Rightarrow>
          map (temperature \<circ> fst) (calls w) = sent @ [3 / 10]
          \<and> stdout w = stdout w0 @ feature_1
              @ [cross_mark @ '' Error in Job Description Analyzer: '' @ str_of_exc e]
      | Inr job_details \<Rightarrow>
          (case fst (generate_suggestions svc G job_details sample_resume w0) of
             Inl e \<Rightarrow>
               map (temperature \<circ> fst) (calls w) = sent @ [3 / 10, 5 / 10]
               \<and> stdout w = stdout w0 @ feature_1 @ feature_2 job_details
                   @ [cross_mark @ '' Error in Resume Suggestion Generator: '' @ str_of_exc e]
           | Inr suggestions \<Rightarrow>
               (case fst (generate svc C ''John Doe'' ''Senior Python Developer'' ''Tech Corp''
                            key_achievements
                            ''Python, Django, FastAPI, PostgreSQL, Redis, Docker, AWS'' w0) of
                  Inl e \<Rightarrow>
                    map (temperature \<circ> fst) (calls w) = sent @ [3 / 10, 5 / 10, 7 / 10]
                    \<and> stdout w = stdout w0 @ feature_1 @ feature_2 job_details
                        @ feature_3 suggestions
                        @ [cross_mark @ '' Error in Cover Letter Generator: '' @ str_of_exc e]
                | Inr cover_letter \<Rightarrow>
                    map (temperature \<circ> fst) (calls w) = sent @ [3 / 10, 5 / 10, 7 / 10]
                    \<and> stdout w = stdout w0 @ feature_1 @ feature_2 job_details
                        @ feature_3 suggestions
                        @ [''\<newline>'' @ check_mark @ '' Generated Cover Letter:'',
                           ''\<newline>'' @ replicate 80 CHR ''-'',
                           cover_letter,
                           replicate 80 CHR ''-'',
                           ''\<newline>'' @ replicate 80 CHR ''='',
                           check_mark @ '' PROJECT 1 COMPLETED SUCCESSFULLY!'',
                           replicate 80 CHR ''='' @ ''\<newline>'']))"
proof -
  let ?A = "JobDescriptionAnalyzer_init decode lax fi_job ''mistral''"
  let ?G = "ResumeSuggestionGenerator_init decode fi_resume ''mistral''"
  let ?C = "CoverLetterGenerator_init ''mistral''"
  let ?req = "''Python, Django, FastAPI, PostgreSQL, Redis, Docker, AWS''"
  define r1 where "r1 = fst (analyze svc ?A job_description w0)"
  define r2 where "r2 = (\<lambda>jd. fst (generate_suggestions svc ?G jd sample_resume w0))"
  define r3 where "r3 = fst (generate svc ?C ''John Doe'' ''Senior Python Developer'' ''Tech Corp''
                            key_achievements ?req w0)"
  define w where "w = main svc decode lax fi_job fi_resume str_of_exc w0"
  define sent where "sent = map (temperature \<circ> fst) (calls w0)"
  define feature_1 where "feature_1 =
         [''\<newline>'' @ replicate 80 CHR ''='',
          ''PROJECT 1: AI JOB APPLICATION ASSISTANT'',
          replicate 80 CHR ''='',
          ''\<newline>'' @ replicate 80 CHR ''-'',
          ''FEATURE 1: JOB DESCRIPTION ANALYZER'',
          replicate 80 CHR ''-'']"
  define feature_2 where "feature_2 = (\<lambda>job_details :: JobDetails.
         [''\<newline>'' @ check_mark @ '' Extracted Job Details:'',
          ''   Job Title: '' @ job_title job_details,
          ''   Experience Required: '' @ str_of_int (experience_required job_details) @ '' years'',
          ''   Required Skills: '' @ join '', '' (required_skills job_details),
          ''   Tools: '' @ join '', '' (tools job_details),
          ''   Soft Skills: '' @ join '', '' (soft_skills job_details),
          ''\<newline>'' @ replicate 80 CHR ''-'',
          ''FEATURE 2: RESUME IMPROVEMENT SUGGESTIONS'',
          replicate 80 CHR ''-''])"
  define feature_3 where "feature_3 = (\<lambda>suggestions :: ResumeSuggestions.
         [''\<newline>'' @ check_mark @ '' Resume Improvement Suggestions:'',
          ''\<newline>   Missing Skills to Add:'']
         @ map (\<lambda>skill. ''      '' @ bullet @ '' '' @ skill) (missing_skills suggestions)
         @ [''\<newline>   Improvement Points:'']
         @ map (\<lambda>point. ''      '' @ bullet @ '' '' @ point) (improvement_points suggestions)
         @ [''\<newline>   Overall Fit Summary: '' @ overall_fit_summary suggestions,
            ''\<newline>'' @ replicate 80 CHR ''-'',
            ''FEATURE 3: COVER LETTER GENERATOR'',
            replicate 80 CHR ''-''])"
  have tA: "temperature (llm ?A) = 3 / 10"
    by (simp add: JobDescriptionAnalyzer_init_def)
  have tG: "temperature (llm ?G) = 5 / 10"
    by (simp add: ResumeSuggestionGenerator_init_def)
  have tC: "temperature (llm ?C) = 7 / 10"
    by (simp add: CoverLetterGenerator_init_def)
  obtain p1 where p1: "\<And>w. analyze svc ?A job_description w =
      (r1, w\<lparr>calls := calls w @ [(llm ?A, p1)]\<rparr>)"
    unfolding analyze_def r1_def using analyze_prompt_ok chain_invoke_spec by metis
  have ex_p2: "\<exists>p2. \<forall>w. generate_suggestions svc ?G jd sample_resume w =
      (r2 jd, w\<lparr>calls := calls w @ [(llm ?G, p2)]\<rparr>)" for jd
    unfolding generate_suggestions_def r2_def
    using suggestions_prompt_ok chain_invoke_spec by metis
  obtain p3 where p3: "\<And>w. generate svc ?C ''John Doe'' ''Senior Python Developer'' ''Tech Corp''
                            key_achievements ?req w =
      (r3, w\<lparr>calls := calls w @ [(llm ?C, p3)]\<rparr>)"
    unfolding generate_def r3_def using generate_prompt_ok chain_invoke_spec by metis
  have "case r1 of
        Inl e \<Rightarrow>
          map (temperature \<circ> fst) (calls w) = sent @ [3 / 10]
          \<and> stdout w = stdout w0 @ feature_1
              @ [cross_mark @ '' Error in Job Description Analyzer: '' @ str_of_exc e]
      | Inr job_details \<Rightarrow>
          (case r2 job_details of
             Inl e \<Rightarrow>
               map (temperature \<circ> fst) (calls w) = sent @ [3 / 10, 5 / 10]
               \<and> stdout w = stdout w0 @ feature_1 @ feature_2 job_details
                   @ [cross_mark @ '' Error in Resume Suggestion Generator: '' @ str_of_exc e]
           | Inr suggestions \<Rightarrow>
               (case r3 of
                  Inl e \<Rightarrow>
                    map (temperature \<circ> fst) (calls w) = sent @ [3 / 10, 5 / 10, 7 / 10]
                    \<and> stdout w = stdout w0 @ feature_1 @ feature_2 job_details
                        @ feature_3 suggestions
                        @ [cross_mark @ '' Error in Cover Letter Generator: '' @ str_of_exc e]
                | Inr cover_letter \<Rightarrow>
                    map (temperature \<circ> fst) (calls w) = sent @ [3 / 10, 5 / 10, 7 / 10]
                    \<and> stdout w = stdout w0 @ feature_1 @ feature_2 job_details
                        @ feature_3 suggestions
                        @ [''\<newline>'' @ check_mark @ '' Generated Cover Letter:'',
                           ''\<newline>'' @ replicate 80 CHR ''-'',
                           cover_letter,
                           replicate 80 CHR ''-'',
                           ''\<newline>'' @ replicate 80 CHR ''='',
                           check_mark @ '' PROJECT 1 COMPLETED SUCCESSFULLY!'',
                           replicate 80 CHR ''='' @ ''\<newline>'']))"
  proof (cases r1)
    case (Inl e)
    have c: "calls w = calls w0 @ [(llm ?A, p1)]"
      unfolding w_def main_def Let_def by (simp add: p1 Inl calls_print)
    have l: "stdout w = stdout w0 @ feature_1
              @ [cross_mark @ '' Error in Job Description Analyzer: '' @ str_of_exc e]"
      unfolding w_def main_def Let_def feature_1_def by (simp add: p1 Inl stdout_print)
    show ?thesis
      unfolding Inl using l by (simp add: c tA sent_def)
  next
    case r1: (Inr jd)
    obtain p2 where p2: "\<And>w. generate_suggestions svc ?G jd sample_resume w =
      (r2 jd, w\<lparr>calls := calls w @ [(llm ?G, p2)]\<rparr>)"
      using ex_p2 by blast
    show ?thesis
    proof (cases "r2 jd")
      case (Inl e)
      have c: "calls w = calls w0 @ [(llm ?A, p1), (llm ?G, p2)]"
        unfolding w_def main_def Let_def by (simp add: p1 r1 p2 Inl calls_print)
      have l: "stdout w = stdout w0 @ feature_1 @ feature_2 jd
          @ [cross_mark @ '' Error in Resume Suggestion Generator: '' @ str_of_exc e]"
        unfolding w_def main_def Let_def feature_1_def feature_2_def
        by (simp add: p1 r1 p2 Inl stdout_print)
      show ?thesis
        unfolding r1 using l Inl by (simp add: c tA tG sent_def)
    next
      case r2: (Inr s)
      show ?thesis
      proof (cases r3)
        case (Inl e)
        have c: "calls w = calls w0 @ [(llm ?A, p1), (llm ?G, p2), (llm ?C, p3)]"
          unfolding w_def main_def Let_def
          by (simp add: p1 r1 p2 r2 p3 Inl calls_print calls_prints del: prints.simps)
        have l: "stdout w = stdout w0 @ feature_1 @ feature_2 jd @ feature_3 s
            @ [cross_mark @ '' Error in Cover Letter Generator: '' @ str_of_exc e]"
          unfolding w_def main_def Let_def feature_1_def feature_2_def feature_3_def
          by (simp add: p1 r1 p2 r2 p3 Inl stdout_print stdout_prints del: prints.simps)
        show ?thesis
          unfolding r1 using l Inl r2 by (simp add: c tA tG tC sent_def)
      next
        case (Inr letter)
        have c: "calls w = calls w0 @ [(llm ?A, p1), (llm ?G, p2), (llm ?C, p3)]"
          unfolding w_def main_def Let_def
          by (simp add: p1 r1 p2 r2 p3 Inr calls_print calls_prints del: prints.simps)
        have l: "stdout w = stdout w0 @ feature_1 @ feature_2 jd @ feature_3 s
                        @ [''\<newline>'' @ check_mark @ '' Generated Cover Letter:'',
                           ''\<newline>'' @ replicate 80 CHR ''-'',
                           letter,
                           replicate 80 CHR ''-'',
                           ''\<newline>'' @ replicate 80 CHR ''='',
                           check_mark @ '' PROJECT 1 COMPLETED SUCCESSFULLY!'',
                           replicate 80 CHR ''='' @ ''\<newline>'']"
          unfolding w_def main_def Let_def feature_1_def feature_2_def feature_3_def
          by (simp add: p1 r1 p2 r2 p3 Inr stdout_print stdout_prints success_banner_def
                del: prints.simps)
        show ?thesis
          unfolding r1 using l Inr r2 by (simp add: c tA tG tC sent_def)
      qed
    qed
  qed
  then show ?thesis
    unfolding Let_def r1_def r2_def r3_def w_def sent_def feature_1_def feature_2_def
      feature_3_def .
qed

end
